theory Spec2Isabelle
  imports Complex_Main "HOL-Library.Sublist" "HOL-Library.Log_Nat"
begin

section \<open>SAP MM Ticket Solver: the page component and the engine it calls\<close>

text \<open>
  The repository's source is the page component \<^verbatim>\<open>src/app/page.tsx\<close>. It imports the type
  \<^verbatim>\<open>SolveResult\<close> and the function \<^verbatim>\<open>solveSapMMTicket\<close> from \<^verbatim>\<open>@/lib/solver\<close>, a module
  of the repository that is not among the sources. The page component is embedded from its
  code, with the solver as a parameter. Of the engine, the keyword detection and the
  Classifier are modelled from the specification, and every definition that is so modelled
  says it in its comment.

  Conventions of the embedding:
  \<^item> a JavaScript string is a list of UTF-16 code units, each a natural number below 65536;
    \<open>ascii\<close> gives the code units of a literal;
  \<^item> a JavaScript number is a \<open>js_number\<close>: a finite binary64 value, written as the real
    it denotes, or one of the infinities, or NaN. The product of two numbers is the exact
    product rounded to binary64. The zero of negative sign is not kept apart from 0; both
    print as \<^verbatim>\<open>0\<close>;
  \<^item> a React state variable is a field of the record \<open>ui_state\<close>, and a handler is a
    function from the state in which it was rendered to the state after its updates.
\<close>

subsection \<open>Strings\<close>

type_synonym code_unit = nat

type_synonym js_string = "code_unit list"

definition ascii :: "string \<Rightarrow> js_string" where
  "ascii s = map of_char s"

text \<open>
  The white space that \<^verbatim>\<open>String.prototype.trim\<close> removes: the code points WhiteSpace and
  LineTerminator of ECMAScript, that is TAB, LF, VT, FF, CR, SPACE, NO-BREAK SPACE, U+1680,
  U+2000 to U+200A, U+2028, U+2029, U+202F, U+205F, U+3000 and U+FEFF. Each is one code
  unit.
\<close>

definition is_js_whitespace :: "code_unit \<Rightarrow> bool" where
  "is_js_whitespace c =
     (c \<in> set [0x0009, 0x000A, 0x000B, 0x000C, 0x000D, 0x0020, 0x00A0, 0x1680,
               0x2028, 0x2029, 0x202F, 0x205F, 0x3000, 0xFEFF]
      \<or> (0x2000 \<le> c \<and> c \<le> 0x200A))"

definition trim :: "js_string \<Rightarrow> js_string" where
  "trim s = rev (dropWhile is_js_whitespace (rev (dropWhile is_js_whitespace s)))"

text \<open>\<^verbatim>\<open>Array.prototype.join\<close> with a separator.\<close>

fun join :: "js_string \<Rightarrow> js_string list \<Rightarrow> js_string" where
  "join sep [] = []"
| "join sep [x] = x"
| "join sep (x # y # ys) = x @ sep @ join sep (y # ys)"

subsection \<open>Numbers\<close>

datatype js_number = Finite real | PlusInfinity | MinusInfinity | NaN

text \<open>
  Rounding a real to binary64, to the nearest value and at a tie to the one of even
  significand. \<open>binary64_quantum x\<close> is the distance between neighbouring binary64 values
  at the magnitude of \<open>x\<close>: \<open>2 ^ (e - 52)\<close> where \<open>2 ^ e \<le> \<bar>x\<bar> < 2 ^ (e + 1)\<close>, and
  \<open>2 ^ - 1074\<close> below \<open>2 ^ - 1022\<close>. From \<open>2 ^ 1024 - 2 ^ 970\<close> on, halfway between the greatest
  finite value and \<open>2 ^ 1024\<close>, the result is an infinity.
\<close>

definition binary64_quantum :: "real \<Rightarrow> real" where
  "binary64_quantum x = 2 ^ nat (bitlen \<lfloor>\<bar>x\<bar> * 2 ^ 1074\<rfloor> - 53) / 2 ^ 1074"

definition round_ties_even :: "real \<Rightarrow> int" where
  "round_ties_even y =
     (let f = \<lfloor>y\<rfloor>; d = y - of_int f
      in if d < 1 / 2 then f else if 1 / 2 < d then f + 1 else if even f then f else f + 1)"

definition to_binary64 :: "real \<Rightarrow> js_number" where
  "to_binary64 x =
     (if 2 ^ 1024 - 2 ^ 970 \<le> \<bar>x\<bar> then (if 0 < x then PlusInfinity else MinusInfinity)
      else Finite (of_int (round_ties_even (x / binary64_quantum x)) * binary64_quantum x))"

text \<open>The operator \<^verbatim>\<open>*\<close> on numbers.\<close>

fun js_multiply :: "js_number \<Rightarrow> js_number \<Rightarrow> js_number" where
  "js_multiply (Finite x) (Finite y) = to_binary64 (x * y)"
| "js_multiply NaN b = NaN"
| "js_multiply a NaN = NaN"
| "js_multiply (Finite x) PlusInfinity =
     (if x = 0 then NaN else if 0 < x then PlusInfinity else MinusInfinity)"
| "js_multiply (Finite x) MinusInfinity =
     (if x = 0 then NaN else if 0 < x then MinusInfinity else PlusInfinity)"
| "js_multiply PlusInfinity (Finite y) =
     (if y = 0 then NaN else if 0 < y then PlusInfinity else MinusInfinity)"
| "js_multiply MinusInfinity (Finite y) =
     (if y = 0 then NaN else if 0 < y then MinusInfinity else PlusInfinity)"
| "js_multiply PlusInfinity PlusInfinity = PlusInfinity"
| "js_multiply PlusInfinity MinusInfinity = MinusInfinity"
| "js_multiply MinusInfinity PlusInfinity = MinusInfinity"
| "js_multiply MinusInfinity MinusInfinity = PlusInfinity"

text \<open>
  \<^verbatim>\<open>Math.round\<close>: the integer nearest to a finite number, a tie going up; an infinity
  and NaN are returned as they are. The integer nearest to a binary64 value is a binary64
  value, so nothing is rounded twice.
\<close>

fun Math_round :: "js_number \<Rightarrow> js_number" where
  "Math_round (Finite x) = Finite (of_int \<lfloor>x + 1 / 2\<rfloor>)"
| "Math_round PlusInfinity = PlusInfinity"
| "Math_round MinusInfinity = MinusInfinity"
| "Math_round NaN = NaN"

text \<open>
  \<^verbatim>\<open>Math.min\<close> and \<^verbatim>\<open>Math.max\<close> of two numbers: NaN when one of them is NaN. \<open>js_less\<close> is the
  order of two numbers that are not NaN.
\<close>

fun js_less :: "js_number \<Rightarrow> js_number \<Rightarrow> bool" where
  "js_less (Finite x) (Finite y) = (x < y)"
| "js_less (Finite x) PlusInfinity = True"
| "js_less MinusInfinity (Finite y) = True"
| "js_less MinusInfinity PlusInfinity = True"
| "js_less a b = False"

definition Math_min :: "js_number \<Rightarrow> js_number \<Rightarrow> js_number" where
  "Math_min a b = (if a = NaN \<or> b = NaN then NaN else if js_less b a then b else a)"

definition Math_max :: "js_number \<Rightarrow> js_number \<Rightarrow> js_number" where
  "Math_max a b = (if a = NaN \<or> b = NaN then NaN else if js_less a b then b else a)"

text \<open>
  The number literals of the page component that are not integers, each the binary64
  value nearest to the decimal: \<^verbatim>\<open>0.05\<close>, \<^verbatim>\<open>0.9\<close>, \<^verbatim>\<open>0.92\<close> and \<^verbatim>\<open>0.6\<close>.
\<close>

definition literal_0_05 :: js_number where
  "literal_0_05 = Finite (3602879701896397 / 2 ^ 56)"

definition literal_0_9 :: js_number where
  "literal_0_9 = Finite (8106479329266893 / 2 ^ 53)"

definition literal_0_92 :: js_number where
  "literal_0_92 = Finite (8286623314361713 / 2 ^ 53)"

definition literal_0_6 :: js_number where
  "literal_0_6 = Finite (5404319552844595 / 2 ^ 53)"

subsection \<open>The result type of the engine\<close>

datatype Priority = Low | Medium | High | Critical

text \<open>
  Modelled from the spec: the type \<^verbatim>\<open>SolveResult\<close> declared in \<^verbatim>\<open>@/lib/solver\<close>, after the
  data model of the specification and the fields that the page component reads. The optional
  priority is an \<open>option\<close>; its four levels are taken to be the string literals of the same
  names, which is what \<open>priority_text\<close> gives.
\<close>

record Metadata =
  suspectedModule :: js_string
  priority :: "Priority option"
  "keywords" :: "js_string list"
  documentNumbers :: "js_string list"

record SolveResult =
  title :: js_string
  summary :: js_string
  rootCause :: js_string
  confidence :: js_number
  steps :: "js_string list"
  validations :: "js_string list"
  preventiveActions :: "js_string list"
  automationIdeas :: "js_string list"
  knowledgeSources :: "js_string list"
  metadata :: Metadata

fun priority_text :: "Priority \<Rightarrow> js_string" where
  "priority_text Low = ascii ''Low''"
| "priority_text Medium = ascii ''Medium''"
| "priority_text High = ascii ''High''"
| "priority_text Critical = ascii ''Critical''"

subsection \<open>The engine: data model\<close>

text \<open>
  Modelled from the spec: the \<^verbatim>\<open>Signals\<close> record of the Entity Extractor (the module
  \<^verbatim>\<open>@/lib/solver\<close> is missing). The fields \<open>keywords\<close> and \<open>documentNumbers\<close> of the
  specification are named \<open>signalKeywords\<close> and \<open>signalDocumentNumbers\<close> here, apart from the
  metadata fields of the same names.
\<close>

record Signals =
  signalKeywords :: "js_string list"
  signalDocumentNumbers :: "js_string list"
  priorityHint :: "Priority option"
  moduleHint :: "js_string option"

text \<open>
  Modelled from the spec: the \<^verbatim>\<open>ScenarioDefinition\<close> record (the module \<^verbatim>\<open>@/lib/solver\<close> is
  missing). \<open>triggerTerms\<close> is the mapping of term to weight, as an association list read
  with \<open>map_of\<close>; a weight is "a positive real number". The fields that share a name with a
  field of \<^verbatim>\<open>SolveResult\<close> carry the prefix \<open>scenario\<close>.
\<close>

record ScenarioDefinition =
  scenarioId :: js_string
  scenarioTitle :: js_string
  triggerTerms :: "(js_string \<times> real) list"
  defaultModule :: js_string
  defaultPriority :: "Priority option"
  summaryTemplate :: js_string
  rootCauseTemplate :: js_string
  scenarioSteps :: "js_string list"
  scenarioValidations :: "js_string list"
  scenarioPreventiveActions :: "js_string list"
  scenarioAutomationIdeas :: "js_string list"
  scenarioKnowledgeSources :: "js_string list"

text \<open>
  Modelled from the spec: the static knowledge base (the module \<^verbatim>\<open>@/lib/solver\<close> is missing,
  and the specification leaves the table's entries, the smoothing constant K and the
  fallback confidence open). It is the parameter \<open>kb\<close> of the engine:
  \<^item> \<open>scenarios\<close>: the scenarios that are scored, in the order of their declaration;
  \<^item> \<open>fallback\<close>: the reserved fallback scenario, "never selected by score". The
    specification does not say where in the table it is declared, and the model gives it
    no place among the scored scenarios;
  \<^item> \<open>smoothingK\<close>: the constant K of the confidence \<open>score / (score + K)\<close>;
  \<^item> \<open>fallbackConfidence\<close>: the fixed low confidence of the fallback;
  \<^item> \<open>surfaceForms\<close>: for a canonical term, the other spellings under which it is found
    (punctuation variants, abbreviations);
  \<^item> \<open>extraVocabulary\<close>: the module and priority vocabulary, which is looked for beside the
    trigger terms.
\<close>

record KnowledgeBase =
  scenarios :: "ScenarioDefinition list"
  fallback :: ScenarioDefinition
  smoothingK :: real
  fallbackConfidence :: real
  surfaceForms :: "(js_string \<times> js_string list) list"
  extraVocabulary :: "js_string list"

text \<open>
  Modelled from the spec: what the specification says of the knowledge base (the table
  itself is missing): K is a positive constant, every trigger weight is a "positive real
  number", and the fallback scenario has "zero trigger terms".
\<close>

definition kb_wf :: "KnowledgeBase \<Rightarrow> bool" where
  "kb_wf kb =
     (0 < smoothingK kb \<and>
      list_all (\<lambda>s. list_all (\<lambda>tw. 0 < snd tw) (triggerTerms s)) (scenarios kb) \<and>
      triggerTerms (fallback kb) = [])"

subsection \<open>The engine: keyword detection of the Entity Extractor\<close>

text \<open>
  Modelled from the spec: the character classes of the matching, and the lower-cased
  working copy of the text ("lower-cases a working copy for matching"). The vocabulary is
  taken to be written with the letters A to Z, so these are the letters that are lowered;
  every other code unit is kept.
\<close>

definition is_digit :: "code_unit \<Rightarrow> bool" where
  "is_digit c = (0x30 \<le> c \<and> c \<le> 0x39)"

definition is_word_char :: "code_unit \<Rightarrow> bool" where
  "is_word_char c = (is_digit c \<or> (0x61 \<le> c \<and> c \<le> 0x7A) \<or> (0x41 \<le> c \<and> c \<le> 0x5A))"

definition lower_letter :: "code_unit \<Rightarrow> code_unit" where
  "lower_letter c = (if 0x41 \<le> c \<and> c \<le> 0x5A then c + 0x20 else c)"

definition lowerCased :: "js_string \<Rightarrow> js_string" where
  "lowerCased s = map lower_letter s"

text \<open>
  Modelled from the spec: deduplication that keeps the first occurrence, for the
  "order-preserving, deduplicated" keywords.
\<close>

fun dedupe_from :: "'a list \<Rightarrow> 'a list \<Rightarrow> 'a list" where
  "dedupe_from seen [] = []"
| "dedupe_from seen (x # xs) =
     (if x \<in> set seen then dedupe_from seen xs else x # dedupe_from (x # seen) xs)"

definition dedupe :: "'a list \<Rightarrow> 'a list" where
  "dedupe xs = dedupe_from [] xs"

text \<open>
  Modelled from the spec: "presence as a whole-word or short-phrase substring match,
  tolerant of simple pluralization". A phrase is found in the lower-cased text where it
  starts at a word boundary (the start of the text, or after a code unit that is neither a
  letter nor a digit) and is followed by a word boundary, or by a plural \<open>s\<close> (U+0073) and
  then a word boundary. The empty phrase is never found.
\<close>

definition boundary_after :: "js_string \<Rightarrow> bool" where
  "boundary_after rest =
     (case rest of
        [] \<Rightarrow> True
      | c # rest' \<Rightarrow>
          (if is_word_char c
           then c = 0x73 \<and> (case rest' of [] \<Rightarrow> True | d # _ \<Rightarrow> \<not> is_word_char d)
           else True))"

definition matches_here :: "js_string \<Rightarrow> js_string \<Rightarrow> bool" where
  "matches_here phrase rest = (prefix phrase rest \<and> boundary_after (drop (length phrase) rest))"

fun found_from :: "js_string \<Rightarrow> bool \<Rightarrow> js_string \<Rightarrow> bool" where
  "found_from phrase at_boundary [] = False"
| "found_from phrase at_boundary (c # cs) =
     ((at_boundary \<and> matches_here phrase (c # cs)) \<or> found_from phrase (\<not> is_word_char c) cs)"

definition phrase_found :: "js_string \<Rightarrow> js_string \<Rightarrow> bool" where
  "phrase_found phrase lowered = (phrase \<noteq> [] \<and> found_from phrase True lowered)"

text \<open>
  Modelled from the spec: the spellings of a canonical term ("PO" vs "P.O." vs "purchase
  order"), and the case-insensitive test for its presence.
\<close>

definition termForms :: "KnowledgeBase \<Rightarrow> js_string \<Rightarrow> js_string list" where
  "termForms kb t = t # (case map_of (surfaceForms kb) t of Some fs \<Rightarrow> fs | None \<Rightarrow> [])"

definition term_present :: "KnowledgeBase \<Rightarrow> js_string \<Rightarrow> js_string \<Rightarrow> bool" where
  "term_present kb lowered t = list_ex (\<lambda>f. phrase_found (lowerCased f) lowered) (termForms kb t)"

text \<open>
  Modelled from the spec: the controlled vocabulary, "the union of all triggerTerms keys
  across the knowledge base plus a small set of module/priority vocabulary".
\<close>

definition vocabulary :: "KnowledgeBase \<Rightarrow> js_string list" where
  "vocabulary kb =
     dedupe (concat (map (\<lambda>s. map fst (triggerTerms s)) (scenarios kb @ [fallback kb]))
             @ extraVocabulary kb)"

text \<open>
  Modelled from the spec: keyword detection, "for each canonical term in a controlled
  vocabulary, test for presence", on a lower-cased working copy of the text. The result is
  the field \<open>keywords\<close> of the signals.
\<close>

definition detectKeywords :: "KnowledgeBase \<Rightarrow> js_string \<Rightarrow> js_string list" where
  "detectKeywords kb text = filter (term_present kb (lowerCased text)) (vocabulary kb)"

subsection \<open>The engine: Classifier\<close>

text \<open>
  Modelled from the spec: the score of a scenario, "sum of triggerTerms[term] for every
  term present in signals.keywords that S declares". The optional module bonus of the
  specification is not taken.
\<close>

definition termWeight :: "ScenarioDefinition \<Rightarrow> js_string \<Rightarrow> real" where
  "termWeight s k = (case map_of (triggerTerms s) k of Some w \<Rightarrow> w | None \<Rightarrow> 0)"

definition score :: "ScenarioDefinition \<Rightarrow> Signals \<Rightarrow> real" where
  "score s sig = sum_list (map (termWeight s) (signalKeywords sig))"

text \<open>
  Modelled from the spec: the confidence of a matched scenario, \<open>score / (score + K)\<close>.
\<close>

definition matchedConfidence :: "KnowledgeBase \<Rightarrow> real \<Rightarrow> real" where
  "matchedConfidence kb sc = sc / (sc + smoothingK kb)"

text \<open>
  Modelled from the spec: the winner of a scan over the scenarios in the order of their
  declaration. A later scenario replaces the best so far only when its score is strictly
  greater, so among equals the earlier one is kept.
\<close>

fun pick_best :: "('a \<Rightarrow> 'b::linorder) \<Rightarrow> 'a \<Rightarrow> 'a list \<Rightarrow> 'a" where
  "pick_best f best [] = best"
| "pick_best f best (x # xs) = pick_best f (if f best < f x then x else best) xs"

text \<open>
  Modelled from the spec: the contract \<^verbatim>\<open>classify(signals) -> (ScenarioDefinition, confidence)\<close>.
  When the highest score is 0 the fallback scenario is selected, with the fixed confidence.
\<close>

definition classify :: "KnowledgeBase \<Rightarrow> Signals \<Rightarrow> ScenarioDefinition \<times> real" where
  "classify kb sig =
     (case scenarios kb of
        [] \<Rightarrow> (fallback kb, fallbackConfidence kb)
      | s # ss \<Rightarrow>
          (let best = pick_best (\<lambda>x. score x sig) s ss;
               sc = score best sig
           in if sc = 0 then (fallback kb, fallbackConfidence kb)
              else (best, matchedConfidence kb sc)))"

text \<open>
  A scenario is matched by the signals when some scored scenario has a score other than 0.
  The least trigger weight of the knowledge base gives the floor of the confidence of a
  matched scenario.
\<close>

definition matched :: "KnowledgeBase \<Rightarrow> Signals \<Rightarrow> bool" where
  "matched kb sig = list_ex (\<lambda>s. score s sig \<noteq> 0) (scenarios kb)"




subsection \<open>The page component: state and handlers\<close>

datatype UploadStatus = Idle | Ocr | Analysis | Done | Error

text \<open>The eight \<^verbatim>\<open>useState\<close> variables of \<^verbatim>\<open>HomePage\<close>, with their initial values.\<close>

record ui_state =
  imagePreview :: "js_string option"
  fileName :: js_string
  extractedText :: js_string
  status :: UploadStatus
  progress :: js_number
  error :: "js_string option"
  solution :: "SolveResult option"
  processingTime :: "js_number option"

definition initial_state :: ui_state where
  "initial_state =
     \<lparr> imagePreview = None, fileName = [], extractedText = [], status = Idle,
       progress = Finite 0,
       error = None, solution = None, processingTime = None \<rparr>"

text \<open>
  The imported \<^verbatim>\<open>solveSapMMTicket\<close>, as the page component sees it: a function of one string
  that returns a \<^verbatim>\<open>SolveResult\<close> or throws. It is a parameter of the handlers, so that a
  theorem about a handler holds for every solver, and what a handler does with the solver
  is read from how its result depends on the solver. A run of a handler gives the exception
  that left the handler, if any, and the state after its updates.
\<close>

datatype js_error = Thrown js_string

type_synonym solver = "js_string \<Rightarrow> js_error + SolveResult"

record handler_run =
  uncaught :: "js_error option"
  stateAfter :: ui_state

definition completes :: "ui_state \<Rightarrow> handler_run" where
  "completes s = \<lparr> uncaught = None, stateAfter = s \<rparr>"

text \<open>
  \<^verbatim>\<open>handleFileChange\<close>, up to its first \<^verbatim>\<open>await\<close>. The argument is the first chosen file, its
  name with the URL that \<^verbatim>\<open>URL.createObjectURL\<close> gives, or \<open>None\<close> when there is no file.
\<close>

definition handleFileChange_selected ::
    "(js_string \<times> js_string) option \<Rightarrow> ui_state \<Rightarrow> ui_state" where
  "handleFileChange_selected file s =
     (case file of
        None \<Rightarrow> s
      | Some (name, url) \<Rightarrow>
          s\<lparr> fileName := name, imagePreview := Some url, status := Ocr,
             progress := literal_0_05,
             error := None, solution := None, processingTime := None \<rparr>)"

text \<open>
  The \<^verbatim>\<open>logger\<close> callback given to \<^verbatim>\<open>Tesseract.recognize\<close>. \<open>messageProgress\<close> is \<open>None\<close> when
  \<^verbatim>\<open>typeof message.progress\<close> is not \<^verbatim>\<open>'number'\<close>.
\<close>

record ocr_message =
  messageStatus :: js_string
  messageProgress :: "js_number option"

definition recognizeLogger :: "ocr_message \<Rightarrow> ui_state \<Rightarrow> ui_state" where
  "recognizeLogger message s =
     (case messageProgress message of
        Some p \<Rightarrow>
          (if messageStatus message = ascii ''recognizing text''
           then s\<lparr> progress := Math_max literal_0_05 (Math_min literal_0_9 p) \<rparr> else s)
      | None \<Rightarrow> s)"

text \<open>The \<^verbatim>\<open>catch\<close> block of \<^verbatim>\<open>handleFileChange\<close>.\<close>

definition handleFileChange_catch :: "ui_state \<Rightarrow> ui_state" where
  "handleFileChange_catch s =
     s\<lparr> status := Error,
        error := Some (ascii
          ''Unable to process the image. Please try another photo or check the file format.'') \<rparr>"

text \<open>
  \<^verbatim>\<open>handleFileChange\<close> after \<^verbatim>\<open>Tesseract.recognize\<close> has resolved with \<^verbatim>\<open>data.text = dataText\<close>.
  \<open>start\<close> and \<open>now\<close> are the two readings of \<^verbatim>\<open>performance.now()\<close>, finite numbers. An
  exception of the solver is caught by the \<^verbatim>\<open>catch\<close> block.
\<close>

definition handleFileChange_recognized ::
    "solver \<Rightarrow> real \<Rightarrow> real \<Rightarrow> js_string \<Rightarrow> ui_state \<Rightarrow> handler_run" where
  "handleFileChange_recognized solve start now dataText s =
     (let cleanedText = trim dataText;
          s1 = s\<lparr> extractedText := cleanedText, progress := literal_0_92,
                 status := Analysis \<rparr>
      in case solve cleanedText of
           Inl e \<Rightarrow> completes (handleFileChange_catch s1)
         | Inr result \<Rightarrow>
             completes (s1\<lparr> solution := Some result, status := Done, progress := Finite 1,
                             processingTime := Some (to_binary64 (now - start)) \<rparr>))"

text \<open>
  \<^verbatim>\<open>handleAnalyzeText\<close>. It has no \<^verbatim>\<open>try\<close>: an exception of the solver leaves the handler,
  after the first two updates.
\<close>

definition handleAnalyzeText :: "solver \<Rightarrow> real \<Rightarrow> real \<Rightarrow> ui_state \<Rightarrow> handler_run" where
  "handleAnalyzeText solve start now s =
     (let s1 = s\<lparr> status := Analysis, progress := literal_0_6 \<rparr>
      in case solve (extractedText s) of
           Inl e \<Rightarrow> \<lparr> uncaught = Some e, stateAfter = s1 \<rparr>
         | Inr result \<Rightarrow>
             completes (s1\<lparr> solution := Some result, status := Done, progress := Finite 1,
                             processingTime := Some (to_binary64 (now - start)) \<rparr>))"

text \<open>The attribute \<^verbatim>\<open>disabled={!extractedText}\<close> of the button "Re-run Analysis".\<close>

definition rerunDisabled :: "ui_state \<Rightarrow> bool" where
  "rerunDisabled s = (extractedText s = [])"

text \<open>
  What happens to the page: a file is chosen, the recognition reports progress, resolves or
  fails, the text area is edited, the button is clicked. A click on a disabled button runs
  no handler. \<open>deliver\<close> is defined on every state, the reachable ones among them.
\<close>

datatype event =
    FileChosen "(js_string \<times> js_string) option"
  | RecognizeProgress ocr_message
  | RecognizeDone js_string real real
  | RecognizeFailed
  | TextEdited js_string
  | RerunClicked real real

fun deliver :: "solver \<Rightarrow> event \<Rightarrow> ui_state \<Rightarrow> handler_run" where
  "deliver solve (FileChosen file) s = completes (handleFileChange_selected file s)"
| "deliver solve (RecognizeProgress message) s = completes (recognizeLogger message s)"
| "deliver solve (RecognizeDone dataText start now) s =
     handleFileChange_recognized solve start now dataText s"
| "deliver solve RecognizeFailed s = completes (handleFileChange_catch s)"
| "deliver solve (TextEdited v) s = completes (s\<lparr> extractedText := v \<rparr>)"
| "deliver solve (RerunClicked start now) s =
     (if rerunDisabled s then completes s else handleAnalyzeText solve start now s)"

subsection \<open>The page component: the panel "Resolution Plan"\<close>

text \<open>
  The rendered tree: a text, a number (React prints it as \<^verbatim>\<open>String\<close> does), or an element
  with its tag, its \<^verbatim>\<open>className\<close> and its children. Style attributes and keys are left out.
\<close>

datatype node = Text js_string | Number js_number | Element string string "node list"

definition strong :: "string \<Rightarrow> node" where
  "strong label = Element ''strong'' [] [Text (ascii label)]"

definition metadataItem :: "string \<Rightarrow> node list \<Rightarrow> node" where
  "metadataItem label content =
     Element ''div'' ''metadata-item'' [strong label, Element ''span'' [] content]"

definition listSection :: "string \<Rightarrow> string \<Rightarrow> js_string list \<Rightarrow> node" where
  "listSection label tag items =
     Element ''div'' []
       [strong label, Element tag ''solutions-list'' (map (\<lambda>item. Element ''li'' [] [Text item]) items)]"

definition joinedSection :: "string \<Rightarrow> js_string list \<Rightarrow> node" where
  "joinedSection label items =
     Element ''div'' []
       [strong label,
        Element ''div'' ''solutions-list'' [Element ''span'' [] [Text (join (ascii '', '') items)]]]"

definition resolutionPlan :: "SolveResult option \<Rightarrow> node" where
  "resolutionPlan sol =
     Element ''article'' ''panel''
       [Element ''h3'' [] [Text (ascii ''Resolution Plan'')],
        (case sol of
           None \<Rightarrow>
             Element ''p'' []
               [Text (ascii (''Upload a ticket and the assistant will generate a resolution playbook ''
                             @ ''based on the extracted SAP MM context.''))]
         | Some r \<Rightarrow>
             Element ''div'' []
               ([Element ''div'' ''metadata-grid''
                   ([metadataItem ''Scenario'' [Text (title r)],
                     metadataItem ''Confidence''
                       [Number (Math_round (js_multiply (confidence r) (Finite 100))),
                        Text (ascii ''%'')],
                     metadataItem ''Module Focus'' [Text (suspectedModule (metadata r))]]
                    @ (case priority (metadata r) of
                         None \<Rightarrow> []
                       | Some p \<Rightarrow> [metadataItem ''Priority'' [Text (priority_text p)]])),
                 Element ''p'' [] [Text (summary r)],
                 Element ''div'' [] [strong ''Root Cause Hypothesis'', Element ''p'' [] [Text (rootCause r)]],
                 listSection ''Guided Steps'' ''ol'' (steps r),
                 listSection ''Validation Checks'' ''ul'' (validations r),
                 listSection ''Preventive Actions'' ''ul'' (preventiveActions r),
                 listSection ''Automation / Analytics Ideas'' ''ul'' (automationIdeas r),
                 listSection ''Knowledge Sources'' ''ul'' (knowledgeSources r)]
                @ (if length (keywords (metadata r)) > 0
                   then [joinedSection ''Detected Keywords'' (keywords (metadata r))] else [])
                @ (if length (documentNumbers (metadata r)) > 0
                   then [joinedSection ''Document References'' (documentNumbers (metadata r))]
                   else [])))]"

text \<open>
  Reading a rendered tree: its texts and numbers in document order, and the items of its
  lists with a given tag.
\<close>

fun leaves :: "node \<Rightarrow> node list" where
  "leaves (Text s) = [Text s]"
| "leaves (Number n) = [Number n]"
| "leaves (Element tag cls kids) = concat (map leaves kids)"

fun listsOf :: "string \<Rightarrow> node \<Rightarrow> node list list" where
  "listsOf tag (Text s) = []"
| "listsOf tag (Number n) = []"
| "listsOf tag (Element t cls kids) =
     (if t = tag then [concat (map leaves kids)] else []) @ concat (map (listsOf tag) kids)"

subsection \<open>An instance for the examples\<close>

text \<open>
  A small knowledge base, a result and three solvers, with which the theorems below are
  applied to concrete inputs. They are examples in the vocabulary of the specification,
  not the table of the repository. The confidence of the example result is the binary64
  value of \<^verbatim>\<open>0.015\<close>.
\<close>

definition example_gr :: ScenarioDefinition where
  "example_gr =
     \<lparr> scenarioId = ascii ''gr-stock'', scenarioTitle = ascii ''Goods receipt stock discrepancy'',
       triggerTerms = [(ascii ''goods receipt'', 3), (ascii ''stock'', 2), (ascii ''material'', 1)],
       defaultModule = ascii ''Inventory Management'', defaultPriority = Some High,
       summaryTemplate = ascii ''Stock differs after the goods receipt'',
       rootCauseTemplate = ascii ''Posting incomplete'',
       scenarioSteps = [ascii ''Check MB51'', ascii ''Check MMBE''],
       scenarioValidations = [ascii ''Stock matches''],
       scenarioPreventiveActions = [ascii ''Monitor postings''],
       scenarioAutomationIdeas = [ascii ''Alert on mismatch''],
       scenarioKnowledgeSources = [ascii ''SAP Note''] \<rparr>"

definition example_iv :: ScenarioDefinition where
  "example_iv =
     \<lparr> scenarioId = ascii ''invoice-block'', scenarioTitle = ascii ''Invoice blocked for payment'',
       triggerTerms =
         [(ascii ''invoice block'', 3), (ascii ''price variance'', 3), (ascii ''invoice'', 1)],
       defaultModule = ascii ''Invoice Verification'', defaultPriority = None,
       summaryTemplate = ascii ''The invoice is blocked'',
       rootCauseTemplate = ascii ''Tolerance exceeded'',
       scenarioSteps = [ascii ''Check MRBR''],
       scenarioValidations = [ascii ''Block removed''],
       scenarioPreventiveActions = [ascii ''Review tolerances''],
       scenarioAutomationIdeas = [ascii ''Variance report''],
       scenarioKnowledgeSources = [ascii ''MIRO guide''] \<rparr>"

definition example_po :: ScenarioDefinition where
  "example_po =
     \<lparr> scenarioId = ascii ''po-release'', scenarioTitle = ascii ''Purchase order not released'',
       triggerTerms =
         [(ascii ''purchase order'', 2), (ascii ''release strategy'', 3), (ascii ''error'', 1 / 2)],
       defaultModule = ascii ''Purchasing'', defaultPriority = Some Medium,
       summaryTemplate = ascii ''The order awaits release'',
       rootCauseTemplate = ascii ''Release strategy not determined'',
       scenarioSteps = [ascii ''Check ME28'', ascii ''Check classification''],
       scenarioValidations = [ascii ''Order released''],
       scenarioPreventiveActions = [ascii ''Maintain release codes''],
       scenarioAutomationIdeas = [ascii ''Release reminder''],
       scenarioKnowledgeSources = [ascii ''ME28 guide''] \<rparr>"

definition example_fallback :: ScenarioDefinition where
  "example_fallback =
     \<lparr> scenarioId = ascii ''unclassified'', scenarioTitle = ascii ''General SAP MM issue'',
       triggerTerms = [],
       defaultModule = ascii ''Materials Management'', defaultPriority = None,
       summaryTemplate = ascii ''The ticket could not be classified'',
       rootCauseTemplate = ascii ''Unknown'',
       scenarioSteps = [ascii ''Collect details''],
       scenarioValidations = [ascii ''Issue reproduced''],
       scenarioPreventiveActions = [ascii ''Use ticket template''],
       scenarioAutomationIdeas = [ascii ''None''],
       scenarioKnowledgeSources = [ascii ''SAP Help''] \<rparr>"

definition example_kb :: KnowledgeBase where
  "example_kb =
     \<lparr> scenarios = [example_gr, example_iv, example_po],
       fallback = example_fallback,
       smoothingK = 3,
       fallbackConfidence = 1 / 5,
       surfaceForms = [(ascii ''purchase order'', [ascii ''PO'', ascii ''P.O.''])],
       extraVocabulary = [ascii ''urgent'', ascii ''critical'', ascii ''low priority''] \<rparr>"

definition example_signals :: "string \<Rightarrow> Signals" where
  "example_signals text =
     \<lparr> signalKeywords = detectKeywords example_kb (ascii text), signalDocumentNumbers = [],
       priorityHint = None, moduleHint = None \<rparr>"

definition example_result :: SolveResult where
  "example_result =
     \<lparr> title = ascii ''Purchase order not released'',
       summary = ascii ''The order awaits release'',
       rootCause = ascii ''Release strategy not determined'',
       confidence = Finite (1080863910568919 / 2 ^ 56),
       steps = [ascii ''Check ME28'', ascii ''Check classification''],
       validations = [ascii ''Order released''],
       preventiveActions = [ascii ''Maintain release codes''],
       automationIdeas = [ascii ''Release reminder''],
       knowledgeSources = [ascii ''ME28 guide''],
       metadata =
         \<lparr> suspectedModule = ascii ''Purchasing'', priority = Some Medium,
           keywords = [ascii ''stock'', ascii ''purchase order'', ascii ''error''],
           documentNumbers = [ascii ''4500001234''] \<rparr> \<rparr>"

definition example_solver :: solver where
  "example_solver text = Inr example_result"

text \<open>A solver that throws unless it is given exactly the text \<^verbatim>\<open>PO 4500001234 blocked\<close>.\<close>

definition example_exact_solver :: solver where
  "example_exact_solver text =
     (if text = ascii ''PO 4500001234 blocked'' then Inr example_result
      else Inl (Thrown (ascii ''unexpected text'')))"

text \<open>A solver that throws when it is given the empty string.\<close>

definition example_strict_solver :: solver where
  "example_strict_solver text =
     (if text = [] then Inl (Thrown (ascii ''empty text'')) else Inr example_result)"

section \<open>Rounding to binary64\<close>

lemma bitlen_eqI:
  fixes n :: int and m :: nat
  assumes lo: "2 ^ m \<le> n" and hi: "n < 2 ^ Suc m"
  shows "bitlen n = int m + 1"
proof -
  have pos: "0 < n"
    using lo by (smt (verit) zero_less_power)
  define b where "b = nat (bitlen n)"
  have b1: "1 \<le> bitlen n" using pos by (auto simp: bitlen_alt_def)
  then have bl: "bitlen n = int b" and bm: "nat (bitlen n - 1) = b - 1"
    by (simp_all add: b_def)
  from bitlen_bounds [OF pos] have l: "(2::int) ^ (b - 1) \<le> n" and h: "n < 2 ^ b"
    by (simp_all add: bm b_def)
  from lo h have "(2::int) ^ m < 2 ^ b" by (rule le_less_trans)
  then have "m < b" by simp
  moreover from l hi have "(2::int) ^ (b - 1) < 2 ^ Suc m" by (rule le_less_trans)
  then have "b - 1 < Suc m"
    by (simp only: power_strict_increasing_iff one_less_numeral_iff semiring_norm)
  ultimately have "b = m + 1" by simp
  then show ?thesis by (simp add: bl)
qed

text \<open>From 1 on, the quantum is \<open>2 ^ (k - 52)\<close> between \<open>2 ^ k\<close> and \<open>2 ^ (k + 1)\<close>.\<close>

lemma binary64_quantum_from_one:
  assumes "2 ^ k \<le> \<bar>x\<bar>" and "\<bar>x\<bar> < 2 ^ Suc k"
  shows "binary64_quantum x = 2 ^ k / 2 ^ 52"
proof -
  have "(2::real) ^ (k + 1074) \<le> \<bar>x\<bar> * 2 ^ 1074"
    using assms(1) by (simp add: power_add)
  then have "real_of_int (2 ^ (k + 1074)) \<le> \<bar>x\<bar> * 2 ^ 1074" by simp
  then have lo: "(2::int) ^ (k + 1074) \<le> \<lfloor>\<bar>x\<bar> * 2 ^ 1074\<rfloor>"
    by (simp only: le_floor_iff)
  have "\<bar>x\<bar> * 2 ^ 1074 < (2::real) ^ Suc (k + 1074)"
    using assms(2) by (simp add: power_add)
  then have "\<bar>x\<bar> * 2 ^ 1074 < real_of_int (2 ^ Suc (k + 1074))" by simp
  then have hi: "\<lfloor>\<bar>x\<bar> * 2 ^ 1074\<rfloor> < (2::int) ^ Suc (k + 1074)"
    by (simp only: floor_less_iff)
  have "bitlen \<lfloor>\<bar>x\<bar> * 2 ^ 1074\<rfloor> = int (k + 1074) + 1"
    by (rule bitlen_eqI [OF lo hi])
  then have "nat (bitlen \<lfloor>\<bar>x\<bar> * 2 ^ 1074\<rfloor> - 53) = k + 1022" by simp
  then have "binary64_quantum x = 2 ^ (k + 1022) / 2 ^ (52 + 1022)"
    by (simp add: binary64_quantum_def)
  also have "\<dots> = 2 ^ k / 2 ^ 52"
    by (simp only: power_add) simp
  finally show ?thesis .
qed

lemma binary64_quantum_pos: "0 < binary64_quantum x"
  by (simp add: binary64_quantum_def)

lemma round_ties_even_near: "\<bar>of_int (round_ties_even y) - y\<bar> \<le> 1 / 2"
  unfolding round_ties_even_def Let_def by (auto simp add: abs_if) linarith+

text \<open>A finite result of the rounding is within half a quantum of the real.\<close>

lemma to_binary64_near:
  assumes "to_binary64 x = Finite v"
  shows "\<bar>v - x\<bar> \<le> binary64_quantum x / 2"
proof -
  let ?q = "binary64_quantum x"
  from assms have v: "v = of_int (round_ties_even (x / ?q)) * ?q"
    by (simp add: to_binary64_def split: if_splits)
  have "\<bar>of_int (round_ties_even (x / ?q)) - x / ?q\<bar> * ?q \<le> 1 / 2 * ?q"
    using round_ties_even_near [of "x / ?q"] binary64_quantum_pos [of x]
    by (intro mult_right_mono) simp_all
  moreover have "v - x = (of_int (round_ties_even (x / ?q)) - x / ?q) * ?q"
    using binary64_quantum_pos [of x] unfolding v by (simp add: field_simps)
  then have "\<bar>v - x\<bar> = \<bar>of_int (round_ties_even (x / ?q)) - x / ?q\<bar> * ?q"
    using binary64_quantum_pos [of x] by (simp only: abs_mult abs_of_pos)
  ultimately show ?thesis by simp
qed

text \<open>
  The product of the binary64 value of \<^verbatim>\<open>0.015\<close> and 100 is the tie 1.5, which
  \<^verbatim>\<open>Math.round\<close> takes up to 2; the exact product is below 1.5.
\<close>

lemma percent_of_0_015:
  "Math_round (js_multiply (Finite (1080863910568919 / 2 ^ 56)) (Finite 100)) = Finite 2"
proof -
  let ?x = "1080863910568919 / 2 ^ 56 * 100 :: real"
  have "2 ^ 0 \<le> \<bar>?x\<bar>" and "\<bar>?x\<bar> < 2 ^ Suc 0" by simp_all
  then have q: "binary64_quantum ?x = 2 ^ 0 / 2 ^ 52" by (rule binary64_quantum_from_one)
  have "to_binary64 ?x = Finite (3 / 2)"
    unfolding to_binary64_def q by (simp add: round_ties_even_def)
  then show ?thesis by simp
qed

section \<open>The panel "Resolution Plan" shows the fields of the result\<close>

lemma leaves_items:
  "concat (map (leaves \<circ> (\<lambda>item. Element ''li'' [] [Text item])) items) = map Text items"
  by (induction items) simp_all

lemma listsOf_items:
  "t \<noteq> ''li'' \<Longrightarrow> concat (map (listsOf t \<circ> (\<lambda>item. Element ''li'' [] [Text item])) items) = []"
  by (induction items) simp_all

lemma leaves_listSection:
  "leaves (listSection label tag items) = Text (ascii label) # map Text items"
  by (simp add: listSection_def strong_def leaves_items)

lemma leaves_joinedSection:
  "leaves (joinedSection label items) = [Text (ascii label), Text (join (ascii '', '') items)]"
  by (simp add: joinedSection_def strong_def)

lemma leaves_metadataItem:
  "leaves (metadataItem label content) = Text (ascii label) # concat (map leaves content)"
  by (simp add: metadataItem_def strong_def)

lemma listsOf_listSection:
  "t = ''ol'' \<or> t = ''ul'' \<Longrightarrow>
   listsOf t (listSection label tag items) = (if tag = t then [map Text items] else [])"
  by (auto simp add: listSection_def strong_def leaves_items listsOf_items)

lemma listsOf_joinedSection:
  "t = ''ol'' \<or> t = ''ul'' \<Longrightarrow> listsOf t (joinedSection label items) = []"
  by (auto simp add: joinedSection_def strong_def)

lemma listsOf_metadataItem:
  "t = ''ol'' \<or> t = ''ul'' \<Longrightarrow>
   listsOf t (metadataItem label [Text x]) = [] \<and>
   listsOf t (metadataItem label [Number n, Text y]) = []"
  by (auto simp add: metadataItem_def strong_def)

text \<open>
  Claim C2. The panel "Resolution Plan" shows every field of the result as it is given.
  Read in document order, the panel holds the title, the percentage, the module, the
  priority when there is one, the summary, the root cause, the items of the five lists one
  by one and in their order, and the keywords and the document numbers joined by
  \<^verbatim>\<open>', '\<close>, each of the two under its heading when the list is not empty. The percentage is
  \<^verbatim>\<open>Math.round(solution.confidence * 100)\<close>, the product being the binary64 product, with
  the text \<^verbatim>\<open>%\<close> behind it. The steps are the one ordered list, the other four lists are the
  unordered lists.
\<close>

theorem resolutionPlan_displays_fields:
  "leaves (resolutionPlan (Some r)) =
     [Text (ascii ''Resolution Plan''),
      Text (ascii ''Scenario''), Text (title r),
      Text (ascii ''Confidence''),
      Number (Math_round (js_multiply (confidence r) (Finite 100))), Text (ascii ''%''),
      Text (ascii ''Module Focus''), Text (suspectedModule (metadata r))]
     @ (case priority (metadata r) of
          None \<Rightarrow> []
        | Some p \<Rightarrow> [Text (ascii ''Priority''), Text (priority_text p)])
     @ [Text (summary r), Text (ascii ''Root Cause Hypothesis''), Text (rootCause r)]
     @ [Text (ascii ''Guided Steps'')] @ map Text (steps r)
     @ [Text (ascii ''Validation Checks'')] @ map Text (validations r)
     @ [Text (ascii ''Preventive Actions'')] @ map Text (preventiveActions r)
     @ [Text (ascii ''Automation / Analytics Ideas'')] @ map Text (automationIdeas r)
     @ [Text (ascii ''Knowledge Sources'')] @ map Text (knowledgeSources r)
     @ (if keywords (metadata r) = [] then []
        else [Text (ascii ''Detected Keywords''),
              Text (join (ascii '', '') (keywords (metadata r)))])
     @ (if documentNumbers (metadata r) = [] then []
        else [Text (ascii ''Document References''),
              Text (join (ascii '', '') (documentNumbers (metadata r)))])
   \<and> listsOf ''ol'' (resolutionPlan (Some r)) = [map Text (steps r)]
   \<and> listsOf ''ul'' (resolutionPlan (Some r)) =
       [map Text (validations r), map Text (preventiveActions r),
        map Text (automationIdeas r), map Text (knowledgeSources r)]"
proof (intro conjI)
  show "leaves (resolutionPlan (Some r)) =
     [Text (ascii ''Resolution Plan''),
      Text (ascii ''Scenario''), Text (title r),
      Text (ascii ''Confidence''),
      Number (Math_round (js_multiply (confidence r) (Finite 100))), Text (ascii ''%''),
      Text (ascii ''Module Focus''), Text (suspectedModule (metadata r))]
     @ (case priority (metadata r) of
          None \<Rightarrow> []
        | Some p \<Rightarrow> [Text (ascii ''Priority''), Text (priority_text p)])
     @ [Text (summary r), Text (ascii ''Root Cause Hypothesis''), Text (rootCause r)]
     @ [Text (ascii ''Guided Steps'')] @ map Text (steps r)
     @ [Text (ascii ''Validation Checks'')] @ map Text (validations r)
     @ [Text (ascii ''Preventive Actions'')] @ map Text (preventiveActions r)
     @ [Text (ascii ''Automation / Analytics Ideas'')] @ map Text (automationIdeas r)
     @ [Text (ascii ''Knowledge Sources'')] @ map Text (knowledgeSources r)
     @ (if keywords (metadata r) = [] then []
        else [Text (ascii ''Detected Keywords''),
              Text (join (ascii '', '') (keywords (metadata r)))])
     @ (if documentNumbers (metadata r) = [] then []
        else [Text (ascii ''Document References''),
              Text (join (ascii '', '') (documentNumbers (metadata r)))])"
    by (simp add: resolutionPlan_def leaves_listSection leaves_joinedSection leaves_metadataItem
        strong_def split: option.split)
  show "listsOf ''ol'' (resolutionPlan (Some r)) = [map Text (steps r)]"
    by (cases "priority (metadata r)")
      (simp_all add: resolutionPlan_def listsOf_listSection listsOf_joinedSection
        listsOf_metadataItem strong_def)
  show "listsOf ''ul'' (resolutionPlan (Some r)) =
       [map Text (validations r), map Text (preventiveActions r),
        map Text (automationIdeas r), map Text (knowledgeSources r)]"
    by (cases "priority (metadata r)")
      (simp_all add: resolutionPlan_def listsOf_listSection listsOf_joinedSection
        listsOf_metadataItem strong_def)
qed

text \<open>
  The example result has the confidence \<^verbatim>\<open>0.015\<close>, whose binary64 product with 100 is
  \<^verbatim>\<open>1.5\<close>: the panel shows 2.
\<close>

theorem resolutionPlan_displays_fields_witness:
  "leaves (resolutionPlan (Some example_result)) =
     [Text (ascii ''Resolution Plan''),
      Text (ascii ''Scenario''), Text (ascii ''Purchase order not released''),
      Text (ascii ''Confidence''), Number (Finite 2), Text (ascii ''%''),
      Text (ascii ''Module Focus''), Text (ascii ''Purchasing''),
      Text (ascii ''Priority''), Text (ascii ''Medium''),
      Text (ascii ''The order awaits release''),
      Text (ascii ''Root Cause Hypothesis''), Text (ascii ''Release strategy not determined''),
      Text (ascii ''Guided Steps''), Text (ascii ''Check ME28''),
      Text (ascii ''Check classification''),
      Text (ascii ''Validation Checks''), Text (ascii ''Order released''),
      Text (ascii ''Preventive Actions''), Text (ascii ''Maintain release codes''),
      Text (ascii ''Automation / Analytics Ideas''), Text (ascii ''Release reminder''),
      Text (ascii ''Knowledge Sources''), Text (ascii ''ME28 guide''),
      Text (ascii ''Detected Keywords''), Text (ascii ''stock, purchase order, error''),
      Text (ascii ''Document References''), Text (ascii ''4500001234'')]
   \<and> listsOf ''ol'' (resolutionPlan (Some example_result)) =
       [[Text (ascii ''Check ME28''), Text (ascii ''Check classification'')]]
   \<and> listsOf ''ul'' (resolutionPlan (Some example_result)) =
       [[Text (ascii ''Order released'')], [Text (ascii ''Maintain release codes'')],
        [Text (ascii ''Release reminder'')], [Text (ascii ''ME28 guide'')]]"
proof -
  have conf: "confidence example_result = Finite (1080863910568919 / 2 ^ 56)"
    by (simp add: example_result_def)
  have percent: "Math_round (js_multiply (confidence example_result) (Finite 100)) = Finite 2"
    unfolding conf by (rule percent_of_0_015)
  have fields: "title example_result = ascii ''Purchase order not released''"
    "summary example_result = ascii ''The order awaits release''"
    "rootCause example_result = ascii ''Release strategy not determined''"
    "steps example_result = [ascii ''Check ME28'', ascii ''Check classification'']"
    "validations example_result = [ascii ''Order released'']"
    "preventiveActions example_result = [ascii ''Maintain release codes'']"
    "automationIdeas example_result = [ascii ''Release reminder'']"
    "knowledgeSources example_result = [ascii ''ME28 guide'']"
    "suspectedModule (metadata example_result) = ascii ''Purchasing''"
    "priority (metadata example_result) = Some Medium"
    "keywords (metadata example_result) = [ascii ''stock'', ascii ''purchase order'', ascii ''error'']"
    "documentNumbers (metadata example_result) = [ascii ''4500001234'']"
    by (simp_all add: example_result_def)
  show ?thesis
    using resolutionPlan_displays_fields [of example_result]
    unfolding percent fields by (simp add: ascii_def)
qed

section \<open>The upload path passes the trimmed text\<close>

lemma list_all_takeWhile: "list_all P (takeWhile P xs)"
  by (induction xs) simp_all

lemma trim_split:
  "s = takeWhile is_js_whitespace s @ trim s
         @ rev (takeWhile is_js_whitespace (rev (dropWhile is_js_whitespace s)))"
proof -
  let ?d = "dropWhile is_js_whitespace s"
  have "trim s @ rev (takeWhile is_js_whitespace (rev ?d))
          = rev (takeWhile is_js_whitespace (rev ?d) @ dropWhile is_js_whitespace (rev ?d))"
    unfolding trim_def by (simp only: rev_append)
  also have "\<dots> = ?d"
    by (simp only: takeWhile_dropWhile_id rev_rev_ident)
  finally have "takeWhile is_js_whitespace s @ trim s @ rev (takeWhile is_js_whitespace (rev ?d))
                  = takeWhile is_js_whitespace s @ ?d"
    by (simp only: append_assoc)
  then show ?thesis by (simp only: takeWhile_dropWhile_id)
qed

lemma trim_last: "trim s \<noteq> [] \<Longrightarrow> \<not> is_js_whitespace (last (trim s))"
proof -
  assume ne: "trim s \<noteq> []"
  let ?e = "dropWhile is_js_whitespace (rev (dropWhile is_js_whitespace s))"
  from ne have e: "?e \<noteq> []" by (simp add: trim_def)
  then have "\<not> is_js_whitespace (hd ?e)" by (rule hd_dropWhile)
  moreover from e have "last (trim s) = hd ?e" by (simp add: trim_def last_rev)
  ultimately show ?thesis by simp
qed

lemma trim_hd: "trim s \<noteq> [] \<Longrightarrow> \<not> is_js_whitespace (hd (trim s))"
proof -
  assume ne: "trim s \<noteq> []"
  define d where "d = dropWhile is_js_whitespace s"
  define tl where "tl = rev (takeWhile is_js_whitespace (rev d))"
  have "takeWhile is_js_whitespace s @ d = takeWhile is_js_whitespace s @ trim s @ tl"
    unfolding d_def tl_def using trim_split [of s] by (simp only: takeWhile_dropWhile_id)
  then have d: "d = trim s @ tl" by (simp only: same_append_eq)
  with ne have "d \<noteq> []" by simp
  then have "\<not> is_js_whitespace (hd d)" unfolding d_def by (rule hd_dropWhile)
  moreover from d ne have "hd d = hd (trim s)" by simp
  ultimately show ?thesis by simp
qed

text \<open>
  Claim C9. On the upload path the solver is applied to \<^verbatim>\<open>data.text.trim()\<close> and to nothing
  else: for every solver, the solution and the status after the handler are what the
  solver gives for the trimmed text, and two solvers that agree on the trimmed text give
  the same run of the handler, whatever they give for the untrimmed text. The text area is
  set to the same trimmed string. The trimmed string is the recognized text without a
  leading and a trailing run of white space, and it neither starts nor ends with white
  space.
\<close>

theorem upload_passes_trimmed_text:
  "solution (stateAfter (handleFileChange_recognized solve start now dataText s)) =
     (case solve (trim dataText) of Inr result \<Rightarrow> Some result | Inl e \<Rightarrow> solution s) \<and>
   status (stateAfter (handleFileChange_recognized solve start now dataText s)) =
     (case solve (trim dataText) of Inr result \<Rightarrow> Done | Inl e \<Rightarrow> Error) \<and>
   extractedText (stateAfter (handleFileChange_recognized solve start now dataText s))
     = trim dataText \<and>
   (\<forall>solve'. solve' (trim dataText) = solve (trim dataText) \<longrightarrow>
      handleFileChange_recognized solve' start now dataText s =
      handleFileChange_recognized solve start now dataText s) \<and>
   (\<exists>lead trail. dataText = lead @ trim dataText @ trail \<and>
      list_all is_js_whitespace lead \<and> list_all is_js_whitespace trail) \<and>
   (trim dataText = [] \<or>
      (\<not> is_js_whitespace (hd (trim dataText)) \<and> \<not> is_js_whitespace (last (trim dataText))))"
proof (intro conjI allI impI)
  show "solution (stateAfter (handleFileChange_recognized solve start now dataText s)) =
     (case solve (trim dataText) of Inr result \<Rightarrow> Some result | Inl e \<Rightarrow> solution s)"
    by (simp add: handleFileChange_recognized_def handleFileChange_catch_def completes_def
        Let_def split: sum.split)
  show "status (stateAfter (handleFileChange_recognized solve start now dataText s)) =
     (case solve (trim dataText) of Inr result \<Rightarrow> Done | Inl e \<Rightarrow> Error)"
    by (simp add: handleFileChange_recognized_def handleFileChange_catch_def completes_def
        Let_def split: sum.split)
  show "extractedText (stateAfter (handleFileChange_recognized solve start now dataText s))
          = trim dataText"
    by (simp add: handleFileChange_recognized_def handleFileChange_catch_def completes_def
        Let_def split: sum.split)
  show "handleFileChange_recognized solve' start now dataText s =
      handleFileChange_recognized solve start now dataText s"
    if "solve' (trim dataText) = solve (trim dataText)" for solve'
    using that by (simp add: handleFileChange_recognized_def Let_def)
  have "list_all is_js_whitespace (takeWhile is_js_whitespace dataText)"
    and "list_all is_js_whitespace
           (rev (takeWhile is_js_whitespace (rev (dropWhile is_js_whitespace dataText))))"
    by (simp_all add: list_all_takeWhile)
  with trim_split [of dataText]
  show "\<exists>lead trail. dataText = lead @ trim dataText @ trail \<and>
      list_all is_js_whitespace lead \<and> list_all is_js_whitespace trail"
    by blast
  show "trim dataText = [] \<or>
      (\<not> is_js_whitespace (hd (trim dataText)) \<and> \<not> is_js_whitespace (last (trim dataText)))"
    using trim_hd [of dataText] trim_last [of dataText] by blast
qed

text \<open>
  The recognized text of the example has white space at both ends, an EM SPACE (U+2003)
  and a line feed among it. The solver that throws on every other text than the trimmed one
  returns its result.
\<close>

theorem upload_passes_trimmed_text_witness:
  "trim (ascii ''  PO 4500001234 blocked '' @ [0x2003, 0x000A]) = ascii ''PO 4500001234 blocked'' \<and>
   example_exact_solver (ascii ''  PO 4500001234 blocked '' @ [0x2003, 0x000A])
     = Inl (Thrown (ascii ''unexpected text'')) \<and>
   solution (stateAfter (handleFileChange_recognized example_exact_solver 0 1
       (ascii ''  PO 4500001234 blocked '' @ [0x2003, 0x000A]) initial_state)) = Some example_result \<and>
   status (stateAfter (handleFileChange_recognized example_exact_solver 0 1
       (ascii ''  PO 4500001234 blocked '' @ [0x2003, 0x000A]) initial_state)) = Done \<and>
   extractedText (stateAfter (handleFileChange_recognized example_exact_solver 0 1
       (ascii ''  PO 4500001234 blocked '' @ [0x2003, 0x000A]) initial_state))
     = ascii ''PO 4500001234 blocked'' \<and>
   handleFileChange_recognized example_solver 0 1
       (ascii ''  PO 4500001234 blocked '' @ [0x2003, 0x000A]) initial_state =
   handleFileChange_recognized example_exact_solver 0 1
       (ascii ''  PO 4500001234 blocked '' @ [0x2003, 0x000A]) initial_state"
proof -
  let ?d = "ascii ''  PO 4500001234 blocked '' @ [0x2003, 0x000A]"
  have ws: "is_js_whitespace 0x20" "is_js_whitespace 0x2003" "is_js_whitespace 0x0A"
    "\<not> is_js_whitespace 80" "\<not> is_js_whitespace 100"
    by (simp_all add: is_js_whitespace_def)
  have d: "?d = [0x20, 0x20] @ (80 # ascii ''O 4500001234 blocke'' @ [100]) @ [0x20, 0x2003, 0x0A]"
    by (simp add: ascii_def)
  have c: "ascii ''PO 4500001234 blocked'' = 80 # ascii ''O 4500001234 blocke'' @ [100]"
    by (simp add: ascii_def)
  have t: "trim ?d = ascii ''PO 4500001234 blocked''"
    unfolding d c by (simp add: trim_def ws)
  have x: "example_exact_solver ?d = Inl (Thrown (ascii ''unexpected text''))"
    by (simp add: example_exact_solver_def ascii_def)
  have agree: "example_solver (trim ?d) = example_exact_solver (trim ?d)"
    unfolding t by (simp add: example_solver_def example_exact_solver_def)
  note T = upload_passes_trimmed_text [of example_exact_solver 0 1 ?d initial_state]
  have same: "handleFileChange_recognized example_solver 0 1 ?d initial_state =
      handleFileChange_recognized example_exact_solver 0 1 ?d initial_state"
    using agree
    by (rule T [THEN conjunct2, THEN conjunct2, THEN conjunct2, THEN conjunct1, rule_format])
  have r: "example_exact_solver (trim ?d) = Inr example_result"
    unfolding t by (simp add: example_exact_solver_def)
  have sol: "solution (stateAfter (handleFileChange_recognized example_exact_solver 0 1 ?d
        initial_state)) = Some example_result"
    using T [THEN conjunct1] by (simp only: r sum.case)
  have st: "status (stateAfter (handleFileChange_recognized example_exact_solver 0 1 ?d
        initial_state)) = Done"
    using T [THEN conjunct2, THEN conjunct1] by (simp only: r sum.case)
  have ex: "extractedText (stateAfter (handleFileChange_recognized example_exact_solver 0 1 ?d
        initial_state)) = ascii ''PO 4500001234 blocked''"
    using T [THEN conjunct2, THEN conjunct2, THEN conjunct1] by (simp only: t)
  from t x sol st ex same show ?thesis by (intro conjI)
qed

section \<open>The button "Re-run Analysis"\<close>

lemma handleAnalyzeText_throws:
  assumes "solve (extractedText s) = Inl e"
  shows "uncaught (handleAnalyzeText solve start now s) = Some e"
  using assms by (simp add: handleAnalyzeText_def Let_def)

text \<open>
  Claim C10. In every state of the page the button "Re-run Analysis" is disabled exactly
  when \<^verbatim>\<open>extractedText\<close> is the empty string. A click runs \<^verbatim>\<open>handleAnalyzeText\<close> only when
  the text is not empty, and \<^verbatim>\<open>handleAnalyzeText\<close> applies the solver to \<^verbatim>\<open>extractedText\<close>
  and to nothing else: its solution and its exception are what the solver gives for that
  text. So what a click does is the same for two solvers that agree on every non-empty
  string: the value of the solver at the empty string is never used.
\<close>

theorem rerun_only_with_text:
  "(rerunDisabled s \<longleftrightarrow> extractedText s = []) \<and>
   deliver solve (RerunClicked start now) s =
     (if extractedText s = [] then completes s else handleAnalyzeText solve start now s) \<and>
   solution (stateAfter (handleAnalyzeText solve start now s)) =
     (case solve (extractedText s) of Inr result \<Rightarrow> Some result | Inl e \<Rightarrow> solution s) \<and>
   uncaught (handleAnalyzeText solve start now s) =
     (case solve (extractedText s) of Inr result \<Rightarrow> None | Inl e \<Rightarrow> Some e) \<and>
   (\<forall>solve'. solve' (extractedText s) = solve (extractedText s) \<longrightarrow>
      handleAnalyzeText solve' start now s = handleAnalyzeText solve start now s) \<and>
   (\<forall>solve'. (\<forall>t. t \<noteq> [] \<longrightarrow> solve' t = solve t) \<longrightarrow>
      deliver solve' (RerunClicked start now) s = deliver solve (RerunClicked start now) s)"
proof (intro conjI allI impI)
  show "rerunDisabled s \<longleftrightarrow> extractedText s = []"
    by (simp add: rerunDisabled_def)
  show "deliver solve (RerunClicked start now) s =
     (if extractedText s = [] then completes s else handleAnalyzeText solve start now s)"
    by (simp add: rerunDisabled_def)
  show "solution (stateAfter (handleAnalyzeText solve start now s)) =
     (case solve (extractedText s) of Inr result \<Rightarrow> Some result | Inl e \<Rightarrow> solution s)"
    by (simp add: handleAnalyzeText_def completes_def Let_def split: sum.split)
  show "uncaught (handleAnalyzeText solve start now s) =
     (case solve (extractedText s) of Inr result \<Rightarrow> None | Inl e \<Rightarrow> Some e)"
    by (simp add: handleAnalyzeText_def completes_def Let_def split: sum.split)
  show "handleAnalyzeText solve' start now s = handleAnalyzeText solve start now s"
    if "solve' (extractedText s) = solve (extractedText s)" for solve'
    using that by (simp add: handleAnalyzeText_def Let_def)
  show "deliver solve' (RerunClicked start now) s = deliver solve (RerunClicked start now) s"
    if "\<forall>t. t \<noteq> [] \<longrightarrow> solve' t = solve t" for solve'
    using that by (simp add: rerunDisabled_def handleAnalyzeText_def Let_def)
qed

text \<open>
  In the initial state the text is empty and a click runs nothing. After the text area has
  been edited, a click gives the solver the text of the text area; the solver that throws
  on the empty string does not throw, in either state.
\<close>

theorem rerun_only_with_text_witness:
  "rerunDisabled initial_state \<and>
   deliver example_strict_solver (RerunClicked 0 1) initial_state = completes initial_state \<and>
   \<not> rerunDisabled (stateAfter (deliver example_strict_solver (TextEdited (ascii ''PO blocked''))
        initial_state)) \<and>
   deliver example_strict_solver (RerunClicked 0 1)
     (stateAfter (deliver example_strict_solver (TextEdited (ascii ''PO blocked'')) initial_state)) =
   deliver example_solver (RerunClicked 0 1)
     (stateAfter (deliver example_strict_solver (TextEdited (ascii ''PO blocked'')) initial_state)) \<and>
   solution (stateAfter (handleAnalyzeText example_exact_solver 0 1
     (stateAfter (deliver example_exact_solver (TextEdited (ascii ''PO 4500001234 blocked''))
        initial_state)))) = Some example_result \<and>
   uncaught (handleAnalyzeText example_exact_solver 0 1
     (stateAfter (deliver example_exact_solver (TextEdited (ascii ''PO 4500001234 blocked''))
        initial_state))) = None \<and>
   handleAnalyzeText example_solver 0 1
     (stateAfter (deliver example_exact_solver (TextEdited (ascii ''PO 4500001234 blocked''))
        initial_state)) =
   handleAnalyzeText example_exact_solver 0 1
     (stateAfter (deliver example_exact_solver (TextEdited (ascii ''PO 4500001234 blocked''))
        initial_state))"
proof -
  let ?s1 = "stateAfter (deliver example_strict_solver (TextEdited (ascii ''PO blocked''))
        initial_state)"
  let ?s2 = "stateAfter (deliver example_exact_solver (TextEdited (ascii ''PO 4500001234 blocked''))
        initial_state)"
  have e0: "extractedText initial_state = []" by (simp add: initial_state_def)
  have e1: "extractedText ?s1 = ascii ''PO blocked''" by (simp add: completes_def)
  have e2: "extractedText ?s2 = ascii ''PO 4500001234 blocked''" by (simp add: completes_def)
  have n1: "ascii ''PO blocked'' \<noteq> []" by (simp add: ascii_def)
  have r: "example_exact_solver (extractedText ?s2) = Inr example_result"
    unfolding e2 by (simp add: example_exact_solver_def)
  note T0 = rerun_only_with_text [of initial_state example_strict_solver 0 1]
  note T1 = rerun_only_with_text [of ?s1 example_solver 0 1]
  note T2 = rerun_only_with_text [of ?s2 example_exact_solver 0 1]
  from T0 e0 have a: "rerunDisabled initial_state"
    and b: "deliver example_strict_solver (RerunClicked 0 1) initial_state = completes initial_state"
    by simp_all
  from T1 e1 n1 have c: "\<not> rerunDisabled ?s1" by simp
  have d: "deliver example_strict_solver (RerunClicked 0 1) ?s1 =
      deliver example_solver (RerunClicked 0 1) ?s1"
    by (rule T1 [THEN conjunct2, THEN conjunct2, THEN conjunct2, THEN conjunct2,
          THEN conjunct2, rule_format])
      (simp add: example_strict_solver_def example_solver_def)
  from T2 have "solution (stateAfter (handleAnalyzeText example_exact_solver 0 1 ?s2)) =
      Some example_result"
    and "uncaught (handleAnalyzeText example_exact_solver 0 1 ?s2) = None"
    unfolding r by simp_all
  moreover have "handleAnalyzeText example_solver 0 1 ?s2 =
      handleAnalyzeText example_exact_solver 0 1 ?s2"
    by (rule T2 [THEN conjunct2, THEN conjunct2, THEN conjunct2, THEN conjunct2,
          THEN conjunct1, rule_format])
      (simp only: r example_solver_def)
  ultimately show ?thesis using a b c d by blast
qed

section \<open>The Classifier: scores and selection\<close>

lemma pick_best_split:
  "\<exists>pre post. b # xs = pre @ pick_best f b xs # post \<and>
     (\<forall>x\<in>set pre. f x < f (pick_best f b xs)) \<and>
     (\<forall>x\<in>set post. f x \<le> f (pick_best f b xs))"
proof (induction xs arbitrary: b)
  case Nil
  have "[b] = [] @ b # []" by simp
  then show ?case by fastforce
next
  case (Cons x xs)
  show ?case
  proof (cases "f b < f x")
    case True
    then have pb: "pick_best f b (x # xs) = pick_best f x xs" by simp
    from Cons.IH [of x] obtain pre post where
      split: "x # xs = pre @ pick_best f x xs # post"
      and lo: "\<forall>y\<in>set pre. f y < f (pick_best f x xs)"
      and hi: "\<forall>y\<in>set post. f y \<le> f (pick_best f x xs)"
      by blast
    have "x \<in> set (pre @ pick_best f x xs # post)"
      using split by (metis list.set_intros(1))
    then have "f x \<le> f (pick_best f x xs)"
      using lo hi by auto
    with True have "f b < f (pick_best f x xs)" by simp
    with lo have lo': "\<forall>y\<in>set (b # pre). f y < f (pick_best f x xs)" by simp
    have split': "b # x # xs = (b # pre) @ pick_best f x xs # post"
      using split by simp
    show ?thesis
      unfolding pb using split' lo' hi by blast
  next
    case False
    then have pb: "pick_best f b (x # xs) = pick_best f b xs" by simp
    from Cons.IH [of b] obtain pre post where
      split: "b # xs = pre @ pick_best f b xs # post"
      and lo: "\<forall>y\<in>set pre. f y < f (pick_best f b xs)"
      and hi: "\<forall>y\<in>set post. f y \<le> f (pick_best f b xs)"
      by blast
    show ?thesis
    proof (cases pre)
      case Nil
      from split have "b # xs = pick_best f b xs # post"
        unfolding Nil by (simp only: append_Nil)
      then have b: "pick_best f b xs = b" and post: "post = xs" by (metis list.inject)+
      have split': "b # x # xs = [] @ b # (x # xs)" by simp
      have hi': "\<forall>y\<in>set (x # xs). f y \<le> f b"
        using False hi b post by auto
      have lo': "\<forall>y\<in>set ([] :: 'a list). f y < f b" by simp
      show ?thesis
        unfolding pb b using split' lo' hi' by blast
    next
      case (Cons p pre')
      from split have "b # xs = p # (pre' @ pick_best f b xs # post)"
        unfolding Cons by (simp only: append_Cons)
      then have p: "p = b" and xs: "xs = pre' @ pick_best f b xs # post"
        by (metis list.inject)+
      from lo Cons p have "f b < f (pick_best f b xs)" by simp
      with False have "f x < f (pick_best f b xs)" by simp
      with lo Cons p have lo': "\<forall>y\<in>set (b # x # pre'). f y < f (pick_best f b xs)" by simp
      have split': "b # x # xs = (b # x # pre') @ pick_best f b xs # post"
        using xs by (metis append_Cons)
      show ?thesis
        unfolding pb using split' lo' hi by blast
    qed
  qed
qed

lemma first_highest_unique:
  fixes f :: "'a \<Rightarrow> 'b::linorder"
  assumes eq: "pre @ r # post = pre' @ r' # post'"
    and lo: "\<forall>x\<in>set pre. f x < f r" and hi: "\<forall>x\<in>set post. f x \<le> f r"
    and lo': "\<forall>x\<in>set pre'. f x < f r'" and hi': "\<forall>x\<in>set post'. f x \<le> f r'"
  shows "pre = pre' \<and> r = r'"
proof -
  from eq obtain us where
    "(pre = pre' @ us \<and> us @ r # post = r' # post') \<or> (pre @ us = pre' \<and> r # post = us @ r' # post')"
    unfolding append_eq_append_conv2 by blast
  then show ?thesis
  proof
    assume a: "pre = pre' @ us \<and> us @ r # post = r' # post'"
    show ?thesis
    proof (cases us)
      case Nil
      with a show ?thesis by simp
    next
      case (Cons u us')
      with a have "u = r'" and "us' @ r # post = post'" by simp_all
      then have "r' \<in> set pre" and "r \<in> set post'" using a Cons by auto
      then have "f r' < f r" and "f r \<le> f r'" using lo hi' by auto
      then show ?thesis by simp
    qed
  next
    assume a: "pre @ us = pre' \<and> r # post = us @ r' # post'"
    show ?thesis
    proof (cases us)
      case Nil
      with a show ?thesis by simp
    next
      case (Cons u us')
      with a have "u = r" and "post = us' @ r' # post'" by simp_all
      then have "r \<in> set pre'" and "r' \<in> set post" using a Cons by auto
      then have "f r < f r'" and "f r' \<le> f r" using lo' hi by auto
      then show ?thesis by simp
    qed
  qed
qed

lemma termWeight_nonneg:
  assumes "list_all (\<lambda>tw. 0 < snd tw) (triggerTerms s)"
  shows "0 \<le> termWeight s k"
proof (cases "map_of (triggerTerms s) k")
  case None
  then show ?thesis by (simp add: termWeight_def)
next
  case (Some w)
  then have "(k, w) \<in> set (triggerTerms s)" by (rule map_of_SomeD)
  with assms have "0 < w" by (auto simp add: list_all_iff)
  with Some show ?thesis by (simp add: termWeight_def)
qed


lemma table_weights_positive:
  assumes "kb_wf kb" and "s \<in> insert (fallback kb) (set (scenarios kb))"
  shows "list_all (\<lambda>tw. 0 < snd tw) (triggerTerms s)"
  using assms by (auto simp add: kb_wf_def list_all_iff)

lemma score_nonneg:
  assumes "kb_wf kb" and "s \<in> insert (fallback kb) (set (scenarios kb))"
  shows "0 \<le> score s sig"
  unfolding score_def
  by (rule sum_list_nonneg) (auto intro: termWeight_nonneg table_weights_positive [OF assms])













lemma classify_matched:
  assumes wf: "kb_wf kb" and m: "matched kb sig"
  shows "\<exists>earlier later.
           scenarios kb = earlier @ fst (classify kb sig) # later \<and>
           (\<forall>x\<in>set earlier. score x sig < score (fst (classify kb sig)) sig) \<and>
           (\<forall>x\<in>set later. score x sig \<le> score (fst (classify kb sig)) sig) \<and>
           score (fst (classify kb sig)) sig \<noteq> 0 \<and>
           snd (classify kb sig) = matchedConfidence kb (score (fst (classify kb sig)) sig)"
proof -
  from m obtain x where x: "x \<in> set (scenarios kb)" and nz: "score x sig \<noteq> 0"
    by (auto simp add: matched_def list_ex_iff)
  then obtain s ss where Cons: "scenarios kb = s # ss" by (cases "scenarios kb") auto
  define best where "best = pick_best (\<lambda>x. score x sig) s ss"
  from pick_best_split [of s ss "\<lambda>x. score x sig"] obtain pre post where
    split: "s # ss = pre @ best # post"
    and lo: "\<forall>x\<in>set pre. score x sig < score best sig"
    and hi: "\<forall>x\<in>set post. score x sig \<le> score best sig"
    unfolding best_def by blast
  have "0 \<le> score x sig" using x by (intro score_nonneg [OF wf]) simp
  with nz have "0 < score x sig" by simp
  moreover have "score x sig \<le> score best sig"
    using x lo hi unfolding Cons split by auto
  ultimately have pos: "score best sig \<noteq> 0" by simp
  with Cons have sel: "classify kb sig = (best, matchedConfidence kb (score best sig))"
    by (simp add: classify_def best_def Let_def)
  have "scenarios kb = pre @ best # post" using Cons split by simp
  with lo hi pos show ?thesis unfolding sel by auto
qed

lemma classify_unmatched:
  assumes "\<not> matched kb sig"
  shows "classify kb sig = (fallback kb, fallbackConfidence kb)"
proof (cases "scenarios kb")
  case Nil
  then show ?thesis by (simp add: classify_def)
next
  case (Cons s ss)
  from pick_best_split [of s ss "\<lambda>x. score x sig"]
  have "pick_best (\<lambda>x. score x sig) s ss \<in> set (s # ss)"
    by (metis in_set_conv_decomp)
  with assms Cons have "score (pick_best (\<lambda>x. score x sig) s ss) sig = 0"
    by (auto simp add: matched_def list_ex_iff)
  with Cons show ?thesis by (simp add: classify_def)
qed


section \<open>Keyword detection under added text\<close>










section \<open>The example knowledge base\<close>

lemma example_kb_wf: "kb_wf example_kb"
  by (simp add: kb_wf_def example_kb_def example_gr_def example_iv_def example_po_def
      example_fallback_def)

lemma example_vocabulary:
  "vocabulary example_kb =
     [ascii ''goods receipt'', ascii ''stock'', ascii ''material'',
      ascii ''invoice block'', ascii ''price variance'', ascii ''invoice'',
      ascii ''purchase order'', ascii ''release strategy'', ascii ''error'',
      ascii ''urgent'', ascii ''critical'', ascii ''low priority'']"
  by (simp add: vocabulary_def example_kb_def example_gr_def example_iv_def example_po_def
      example_fallback_def dedupe_def ascii_def)

lemmas detect_simps =
  term_present_def termForms_def example_kb_def phrase_found_def lowerCased_def
  lower_letter_def matches_here_def boundary_after_def is_word_char_def is_digit_def ascii_def





lemma example_keywords_tie:
  "detectKeywords example_kb (ascii ''Stock and Purchase Orders'') =
     [ascii ''stock'', ascii ''purchase order'']"
  unfolding detectKeywords_def example_vocabulary by (simp add: detect_simps)

lemma example_keywords_none:
  "detectKeywords example_kb (ascii ''asdkj qweoiu'') = []"
  unfolding detectKeywords_def example_vocabulary by (simp add: detect_simps)

lemma score_example:
  "score s (example_signals text) =
     sum_list (map (termWeight s) (detectKeywords example_kb (ascii text)))"
  by (simp add: score_def example_signals_def)

lemmas score_simps =
  termWeight_def example_gr_def example_iv_def example_po_def example_fallback_def ascii_def

lemma example_scenarios_distinct:
  "example_fallback \<noteq> example_gr" "example_fallback \<noteq> example_iv"
  "example_fallback \<noteq> example_po" "example_gr \<noteq> example_iv" "example_gr \<noteq> example_po"
  "example_iv \<noteq> example_po"
  by (simp_all add: example_gr_def example_iv_def example_po_def example_fallback_def ascii_def)

section \<open>Selection of the scenario\<close>

text \<open>
  Claim C7, as amended. When some scored scenario has a score other than 0, the scenario
  that the Classifier selects is a scenario of the knowledge base with the highest score,
  and every scenario declared before it has a strictly lower score: among scenarios of
  equal highest score the one declared earlier is selected. The position so described is
  the only one, so the selection is a function of the scores and of the order of the
  declarations. When every scored scenario has the score 0, the selection is the fallback
  scenario with the fixed confidence, whatever the order of the declarations.
\<close>

theorem classify_selects_first_highest:
  assumes "kb_wf kb"
  shows "(matched kb sig \<longrightarrow>
            (\<exists>earlier later.
               scenarios kb = earlier @ fst (classify kb sig) # later \<and>
               (\<forall>x\<in>set earlier. score x sig < score (fst (classify kb sig)) sig) \<and>
               (\<forall>x\<in>set later. score x sig \<le> score (fst (classify kb sig)) sig)) \<and>
            (\<forall>earlier best later.
               scenarios kb = earlier @ best # later \<and>
               (\<forall>x\<in>set earlier. score x sig < score best sig) \<and>
               (\<forall>x\<in>set later. score x sig \<le> score best sig)
               \<longrightarrow> fst (classify kb sig) = best)) \<and>
         (\<not> matched kb sig \<longrightarrow> classify kb sig = (fallback kb, fallbackConfidence kb))"
proof (intro conjI impI)
  assume m: "matched kb sig"
  from classify_matched [OF assms m] show first: "\<exists>earlier later.
               scenarios kb = earlier @ fst (classify kb sig) # later \<and>
               (\<forall>x\<in>set earlier. score x sig < score (fst (classify kb sig)) sig) \<and>
               (\<forall>x\<in>set later. score x sig \<le> score (fst (classify kb sig)) sig)"
    by blast
  show "\<forall>earlier best later.
               scenarios kb = earlier @ best # later \<and>
               (\<forall>x\<in>set earlier. score x sig < score best sig) \<and>
               (\<forall>x\<in>set later. score x sig \<le> score best sig)
               \<longrightarrow> fst (classify kb sig) = best"
  proof (intro allI impI)
    fix earlier best later
    assume a: "scenarios kb = earlier @ best # later \<and>
            (\<forall>x\<in>set earlier. score x sig < score best sig) \<and>
            (\<forall>x\<in>set later. score x sig \<le> score best sig)"
    from first obtain e l where
      split: "scenarios kb = e @ fst (classify kb sig) # l"
      and lo: "\<forall>x\<in>set e. score x sig < score (fst (classify kb sig)) sig"
      and hi: "\<forall>x\<in>set l. score x sig \<le> score (fst (classify kb sig)) sig"
      by blast
    from a split have "e @ fst (classify kb sig) # l = earlier @ best # later" by metis
    from first_highest_unique [OF this lo hi] a
    show "fst (classify kb sig) = best" by blast
  qed
next
  assume "\<not> matched kb sig"
  then show "classify kb sig = (fallback kb, fallbackConfidence kb)"
    by (rule classify_unmatched)
qed

theorem classify_selects_first_highest_witness:
  "kb_wf example_kb \<and>
   matched example_kb (example_signals ''Stock and Purchase Orders'') \<and>
   score example_gr (example_signals ''Stock and Purchase Orders'') = 2 \<and>
   score example_iv (example_signals ''Stock and Purchase Orders'') = 0 \<and>
   score example_po (example_signals ''Stock and Purchase Orders'') = 2 \<and>
   fst (classify example_kb (example_signals ''Stock and Purchase Orders'')) = example_gr \<and>
   \<not> matched example_kb (example_signals ''asdkj qweoiu'') \<and>
   classify example_kb (example_signals ''asdkj qweoiu'') = (example_fallback, 1 / 5)"
proof -
  let ?sig = "example_signals ''Stock and Purchase Orders''"
  let ?none = "example_signals ''asdkj qweoiu''"
  note wf = example_kb_wf
  have s: "score example_gr ?sig = 2" "score example_iv ?sig = 0" "score example_po ?sig = 2"
    unfolding score_example example_keywords_tie by (simp_all add: score_simps)
  have n: "score example_gr ?none = 0" "score example_iv ?none = 0" "score example_po ?none = 0"
    unfolding score_example example_keywords_none by (simp_all add: score_simps)
  have m: "matched example_kb ?sig"
    using s by (simp add: matched_def example_kb_def)
  have u: "\<not> matched example_kb ?none"
    using n by (simp add: matched_def example_kb_def)
  have "scenarios example_kb = [] @ example_gr # [example_iv, example_po] \<and>
        (\<forall>x\<in>set []. score x ?sig < score example_gr ?sig) \<and>
        (\<forall>x\<in>set [example_iv, example_po]. score x ?sig \<le> score example_gr ?sig)"
    using s by (simp add: example_kb_def)
  then have sel: "fst (classify example_kb ?sig) = example_gr"
    by (rule classify_selects_first_highest
        [OF wf, of ?sig, THEN conjunct1, rule_format, OF m, THEN conjunct2, rule_format])
  have "classify example_kb ?none = (fallback example_kb, fallbackConfidence example_kb)"
    using u by (rule classify_selects_first_highest [OF wf, of ?none, THEN conjunct2, rule_format])
  then have fb: "classify example_kb ?none = (example_fallback, 1 / 5)"
    by (simp add: example_kb_def)
  from wf m s sel u fb show ?thesis by (intro conjI)
qed

text \<open>
  The claim as worded, for every value of the signals, does not hold: for the text
  \<^verbatim>\<open>asdkj qweoiu\<close> every scenario of the example has the score 0, the first of them is
  \<open>example_gr\<close>, and the selection is the fallback scenario, which is not among the scored
  scenarios and is not the first of the highest either when it is read as declared last.
\<close>

theorem classify_first_highest_counterexample:
  "kb_wf example_kb \<and>
   scenarios example_kb = [example_gr, example_iv, example_po] \<and>
   score example_gr (example_signals ''asdkj qweoiu'') = 0 \<and>
   score example_iv (example_signals ''asdkj qweoiu'') = 0 \<and>
   score example_po (example_signals ''asdkj qweoiu'') = 0 \<and>
   score (fallback example_kb) (example_signals ''asdkj qweoiu'') = 0 \<and>
   fst (classify example_kb (example_signals ''asdkj qweoiu'')) = fallback example_kb \<and>
   fst (classify example_kb (example_signals ''asdkj qweoiu'')) \<noteq> example_gr \<and>
   fst (classify example_kb (example_signals ''asdkj qweoiu'')) \<notin> set (scenarios example_kb) \<and>
   \<not> (\<exists>earlier later.
        scenarios example_kb @ [fallback example_kb] =
          earlier @ fst (classify example_kb (example_signals ''asdkj qweoiu'')) # later \<and>
        (\<forall>x\<in>set earlier. score x (example_signals ''asdkj qweoiu'')
            < score (fst (classify example_kb (example_signals ''asdkj qweoiu'')))
                (example_signals ''asdkj qweoiu'')) \<and>
        (\<forall>x\<in>set later. score x (example_signals ''asdkj qweoiu'')
            \<le> score (fst (classify example_kb (example_signals ''asdkj qweoiu'')))
                (example_signals ''asdkj qweoiu'')))"
proof -
  let ?none = "example_signals ''asdkj qweoiu''"
  note wf = example_kb_wf
  have sc: "scenarios example_kb = [example_gr, example_iv, example_po]"
    and fk: "fallback example_kb = example_fallback"
    by (simp_all add: example_kb_def)
  have n: "score example_gr ?none = 0" "score example_iv ?none = 0" "score example_po ?none = 0"
    "score example_fallback ?none = 0"
    unfolding score_example example_keywords_none by (simp_all add: score_simps)
  have u: "\<not> matched example_kb ?none"
    using n by (simp add: matched_def example_kb_def)
  have sel: "fst (classify example_kb ?none) = example_fallback"
    using classify_unmatched [OF u] by (simp add: fk)
  have no: "\<not> (\<exists>earlier later.
        [example_gr, example_iv, example_po, example_fallback] = earlier @ example_fallback # later \<and>
        (\<forall>x\<in>set earlier. score x ?none < score example_fallback ?none) \<and>
        (\<forall>x\<in>set later. score x ?none \<le> score example_fallback ?none))"
  proof
    assume "\<exists>earlier later.
        [example_gr, example_iv, example_po, example_fallback] = earlier @ example_fallback # later \<and>
        (\<forall>x\<in>set earlier. score x ?none < score example_fallback ?none) \<and>
        (\<forall>x\<in>set later. score x ?none \<le> score example_fallback ?none)"
    then obtain earlier later where
      split: "[example_gr, example_iv, example_po, example_fallback] = earlier @ example_fallback # later"
      and lo: "\<forall>x\<in>set earlier. score x ?none < score example_fallback ?none"
      by blast
    have "earlier \<noteq> []"
      using split example_scenarios_distinct by (cases earlier) auto
    then have "hd earlier = example_gr" using split by (cases earlier) auto
    with \<open>earlier \<noteq> []\<close> have "example_gr \<in> set earlier" by (metis hd_in_set)
    with lo have "score example_gr ?none < score example_fallback ?none" by blast
    with n show False by simp
  qed
  have a: "score (fallback example_kb) ?none = 0" using n by (simp add: fk)
  have b: "fst (classify example_kb ?none) = fallback example_kb" using sel by (simp add: fk)
  have c: "fst (classify example_kb ?none) \<noteq> example_gr"
    using sel example_scenarios_distinct by simp
  have d: "fst (classify example_kb ?none) \<notin> set (scenarios example_kb)"
    using sel example_scenarios_distinct by (simp add: sc)
  have e: "\<not> (\<exists>earlier later.
        scenarios example_kb @ [fallback example_kb] =
          earlier @ fst (classify example_kb ?none) # later \<and>
        (\<forall>x\<in>set earlier. score x ?none < score (fst (classify example_kb ?none)) ?none) \<and>
        (\<forall>x\<in>set later. score x ?none \<le> score (fst (classify example_kb ?none)) ?none))"
    using no unfolding sel sc fk by simp
  from wf sc n(1-3) a b c d e show ?thesis by (intro conjI)
qed

section \<open>Monotonicity, selection and confidence\<close>




end
